theory Spec2Isabelle
  imports Main
begin

section \<open>RateMyStore server: authentication, registration, ratings, user administration\<close>

text \<open>
  The handlers of the server are Express middlewares over a Prisma client. Each one is
  embedded as a function from the state it reads (the database tables, the request) to
  the state it leaves and the response it sends. The libraries the handlers call
  (jsonwebtoken, bcrypt, the e-mail rule of Joi, \<open>parseInt\<close>), the process environment
  and what the sources leave open are the fields of one record, passed to every handler,
  so that each theorem holds for whatever these compute.
\<close>

subsection \<open>Data\<close>

text \<open>
  The payload of a token. \<open>generateToken\<close> signs \<open>{ userId }\<close>, \<open>loginUser\<close> signs
  \<open>{ id, role }\<close>; a key that is not in the payload reads as \<open>undefined\<close>, here \<open>None\<close>.
\<close>

record payload =
  p_userId :: "int option"
  p_id :: "int option"
  p_role :: "string option"

text \<open>
  The rows of the three tables, with the columns the handlers read and write (time
  stamps left out). \<open>null\<close> in a nullable column is \<open>None\<close>.
\<close>

record user =
  user_id :: int
  user_name :: string
  user_email :: string
  user_password :: string
  user_role :: string
  user_address :: "string option"

record store =
  store_id :: int
  store_name :: string
  store_ownerId :: int

record rating =
  rating_id :: int
  rating_userId :: int
  rating_storeId :: int
  rating_rating :: int
  rating_comment :: "string option"

text \<open>The projection \<open>select: { id, email, name, role }\<close> that \<open>verifyToken\<close> attaches.\<close>

record ctx =
  ctx_id :: int
  ctx_email :: string
  ctx_name :: string
  ctx_role :: string

text \<open>
  \<open>req.user\<close> holds the decoded payload between lines 11 and 23 of \<open>verifyToken\<close> and
  the selected user record afterwards.
\<close>

datatype requser = Decoded payload | Selected ctx

fun requser_role :: "requser \<Rightarrow> string option" where
  "requser_role (Decoded p) = p_role p"
| "requser_role (Selected c) = Some (ctx_role c)"

fun requser_id :: "requser \<Rightarrow> int option" where
  "requser_id (Decoded p) = p_id p"
| "requser_id (Selected c) = Some (ctx_id c)"

record 'b request =
  authorization :: "string option"
  user :: "requser option"
  params_id :: string
  body :: 'b


subsection \<open>Responses and exceptions\<close>

text \<open>
  The columns a handler sends back of a user row: \<open>select: { id, name, email, role,
  address }\<close> in \<open>registerUser\<close>, the row without its password in \<open>loginUser\<close>.
\<close>

record user_view =
  view_id :: int
  view_name :: string
  view_email :: string
  view_role :: string
  view_address :: "string option"

text \<open>
  A failed validation is named by the key and the Joi error type (\<open>any.required\<close>,
  \<open>string.min\<close>, ...) of \<open>error.details[0]\<close>; the handler sends the message Joi writes
  for it.
\<close>

datatype joi_error = JoiError string string

text \<open>
  What a handler sends, \<open>res.status(n).json(...)\<close>: a message alone, the message of a
  validation error, \<open>{ message, newUser, token }\<close>, \<open>{ message, token, user }\<close>,
  \<open>{ message, rating }\<close> (the rating row, without the names of store and user that
  \<open>include\<close> joins to it).
\<close>

datatype reply =
  Message string
  | JoiMessage joi_error
  | UserCreated string user_view string
  | LoginOk string string user_view
  | RatingSaved string rating

record response =
  status :: nat
  json :: reply

text \<open>A middleware either answers the request itself or calls \<open>next()\<close>.\<close>

datatype outcome = Responded response | Next

text \<open>
  What a \<open>try\<close> block can throw, each handler catching all of it in one \<open>catch\<close>, and
  what loading a module can throw.
\<close>

datatype exn =
  ReferenceError string
  | SyntaxError string
  | TypeError
  | PrismaValidationError
  | PrismaUniqueConstraintError
  | PrismaForeignKeyError
  | PrismaNotFoundError

subsection \<open>Libraries and environment\<close>

text \<open>
  \<open>jwt_verify token secret\<close> is \<open>jwt.verify\<close> at the time of the request: \<open>None\<close> when it
  throws (malformed, signed with another secret, expired), the decoded payload otherwise.
  \<open>jwt_sign payload secret expiresIn\<close> is \<open>jwt.sign\<close>; the signing secret is set in the
  environment. \<open>bcrypt_hash\<close> is \<open>bcrypt.hash\<close> with the salt it draws, \<open>joi_email\<close> the
  rule \<open>Joi.string().email()\<close>, \<open>parseInt\<close> the JavaScript function (\<open>None\<close> for \<open>NaN\<close>).

  Two things the sources leave open. The module of \<open>verifyToken\<close> requires
  \<open>jsonwebtoken\<close> and nothing else, so the name \<open>prisma\<close> in its body is looked up in
  the global object. No module among the sources puts the client there, and each of
  the controllers requires \<open>config/prismaClient\<close> for itself; \<open>global_prisma\<close> tells
  whether that module, which is not among the sources, does. The Prisma schema is not
  among the sources either: \<open>user_onDelete\<close> is the referential action of the
  relations that point to a user.
\<close>

datatype ref_action = Cascade | Restrict

record env =
  JWT_SECRET :: string
  JWT_EXPIRES_IN :: "string option"
  jwt_sign :: "payload \<Rightarrow> string \<Rightarrow> string \<Rightarrow> string"
  jwt_verify :: "string \<Rightarrow> string \<Rightarrow> payload option"
  bcrypt_hash :: "string \<Rightarrow> nat \<Rightarrow> string"
  joi_email :: "string \<Rightarrow> bool"
  parseInt :: "string \<Rightarrow> int option"
  global_prisma :: bool
  user_onDelete :: ref_action

subsection \<open>The database\<close>

text \<open>
  The tables are lists of rows. The unique keys are the ones the handlers name in
  \<open>findUnique\<close>: \<open>id\<close> in each table, \<open>email\<close> of a user, \<open>(userId, storeId)\<close> of a
  rating; a \<open>create\<close> that would repeat one throws. Identifiers are drawn from a
  sequence for each table. A rating refers to its user and its store (the handlers
  \<open>include\<close> both), and a \<open>create\<close> that refers to a missing row throws. A \<open>where\<close>
  whose key is \<open>undefined\<close> or \<open>NaN\<close> is rejected by the Prisma client with a validation
  error before any query is sent.
\<close>

record db =
  users :: "user list"
  stores :: "store list"
  ratings :: "rating list"
  next_user_id :: int
  next_rating_id :: int

definition user_findUnique_id :: "db \<Rightarrow> int option \<Rightarrow> exn + user option" where
  "user_findUnique_id d i =
     (case i of None \<Rightarrow> Inl PrismaValidationError
      | Some k \<Rightarrow> Inr (find (\<lambda>u. user_id u = k) (users d)))"

definition user_findUnique_email :: "db \<Rightarrow> string \<Rightarrow> user option" where
  "user_findUnique_email d e = find (\<lambda>u. user_email u = e) (users d)"

definition store_findUnique_id :: "db \<Rightarrow> int \<Rightarrow> store option" where
  "store_findUnique_id d k = find (\<lambda>s. store_id s = k) (stores d)"

definition rating_findUnique_userId_storeId ::
    "db \<Rightarrow> int option \<Rightarrow> int \<Rightarrow> exn + rating option" where
  "rating_findUnique_userId_storeId d uid sid =
     (case uid of None \<Rightarrow> Inl PrismaValidationError
      | Some k \<Rightarrow>
          Inr (find (\<lambda>r. rating_userId r = k \<and> rating_storeId r = sid) (ratings d)))"

text \<open>\<open>prisma.user.create({ data: { name, email, role, password, address } })\<close>.\<close>

definition user_create ::
    "db \<Rightarrow> string \<Rightarrow> string \<Rightarrow> string \<Rightarrow> string \<Rightarrow> string option \<Rightarrow> exn + db \<times> user" where
  "user_create d nm em rl pw ad =
     (let u = \<lparr>user_id = next_user_id d, user_name = nm, user_email = em,
                user_password = pw, user_role = rl, user_address = ad\<rparr>
      in if list_ex (\<lambda>x. user_id x = user_id u \<or> user_email x = em) (users d)
         then Inl PrismaUniqueConstraintError
         else Inr (d\<lparr>users := users d @ [u], next_user_id := next_user_id d + 1\<rparr>, u))"

text \<open>\<open>prisma.rating.create({ data: { userId, storeId, rating, comment } })\<close>.\<close>

definition rating_create ::
    "db \<Rightarrow> int option \<Rightarrow> int \<Rightarrow> int \<Rightarrow> string option \<Rightarrow> exn + db \<times> rating" where
  "rating_create d uid sid v c =
     (case uid of None \<Rightarrow> Inl PrismaValidationError
      | Some k \<Rightarrow>
          (let r = \<lparr>rating_id = next_rating_id d, rating_userId = k, rating_storeId = sid,
                     rating_rating = v, rating_comment = c\<rparr>
           in if \<not> list_ex (\<lambda>u. user_id u = k) (users d)
                 \<or> \<not> list_ex (\<lambda>s. store_id s = sid) (stores d)
              then Inl PrismaForeignKeyError
              else if list_ex (\<lambda>x. rating_id x = rating_id r
                                 \<or> (rating_userId x = k \<and> rating_storeId x = sid)) (ratings d)
              then Inl PrismaUniqueConstraintError
              else Inr (d\<lparr>ratings := ratings d @ [r],
                          next_rating_id := next_rating_id d + 1\<rparr>, r)))"

text \<open>
  \<open>prisma.rating.update({ where: { id }, data: { rating, comment } })\<close>: a key of \<open>data\<close>
  that is \<open>undefined\<close> leaves its column as it is.
\<close>

definition rating_update ::
    "db \<Rightarrow> int \<Rightarrow> int \<Rightarrow> string option \<Rightarrow> exn + db \<times> rating" where
  "rating_update d k v c =
     (let upd = (\<lambda>r. r\<lparr>rating_rating := v,
                        rating_comment := (case c of None \<Rightarrow> rating_comment r
                                           | Some t \<Rightarrow> Some t)\<rparr>)
      in case find (\<lambda>r. rating_id r = k) (ratings d) of
           None \<Rightarrow> Inl PrismaNotFoundError
         | Some r \<Rightarrow>
             Inr (d\<lparr>ratings := map (\<lambda>x. if rating_id x = k then upd x else x) (ratings d)\<rparr>,
                  upd r))"

text \<open>
  \<open>prisma.user.delete({ where: { id } })\<close>. Under \<open>Restrict\<close> a user that a store or a
  rating refers to cannot be deleted; under \<open>Cascade\<close> these rows go with the user, and
  the ratings of the stores that go.
\<close>

definition user_delete :: "env \<Rightarrow> db \<Rightarrow> int option \<Rightarrow> exn + db" where
  "user_delete E d i =
     (case i of None \<Rightarrow> Inl PrismaValidationError
      | Some k \<Rightarrow>
          if \<not> list_ex (\<lambda>u. user_id u = k) (users d) then Inl PrismaNotFoundError
          else
            (case user_onDelete E of
               Restrict \<Rightarrow>
                 if list_ex (\<lambda>s. store_ownerId s = k) (stores d)
                    \<or> list_ex (\<lambda>r. rating_userId r = k) (ratings d)
                 then Inl PrismaForeignKeyError
                 else Inr (d\<lparr>users := filter (\<lambda>u. user_id u \<noteq> k) (users d)\<rparr>)
             | Cascade \<Rightarrow>
                 (let gone = map store_id (filter (\<lambda>s. store_ownerId s = k) (stores d))
                  in Inr (d\<lparr>users := filter (\<lambda>u. user_id u \<noteq> k) (users d),
                            stores := filter (\<lambda>s. store_ownerId s \<noteq> k) (stores d),
                            ratings := filter (\<lambda>r. rating_userId r \<noteq> k
                                                 \<and> rating_storeId r \<notin> set gone)
                                         (ratings d)\<rparr>))))"

definition select_ctx :: "user \<Rightarrow> ctx" where
  "select_ctx u =
     \<lparr>ctx_id = user_id u, ctx_email = user_email u, ctx_name = user_name u,
      ctx_role = user_role u\<rparr>"

definition select_view :: "user \<Rightarrow> user_view" where
  "select_view u =
     \<lparr>view_id = user_id u, view_name = user_name u, view_email = user_email u,
      view_role = user_role u, view_address = user_address u\<rparr>"

subsection \<open>The authentication middleware\<close>

text \<open>\<open>s.split(" ")\<close>: the pieces between single spaces, empty pieces kept.\<close>

fun split_sp :: "string \<Rightarrow> string list" where
  "split_sp [] = [[]]"
| "split_sp (c # cs) =
     (if c = CHR '' '' then [] # split_sp cs
      else (case split_sp cs of w # ws \<Rightarrow> (c # w) # ws | [] \<Rightarrow> [[c]]))"

text \<open>
  \<open>req.headers.authorization?.split(" ")[1]\<close>: \<open>undefined\<close> when the header is absent or
  has no second piece.
\<close>

definition header_token :: "string option \<Rightarrow> string option" where
  "header_token h =
     (case h of None \<Rightarrow> None
      | Some a \<Rightarrow> (case split_sp a of _ # t # _ \<Rightarrow> Some t | _ \<Rightarrow> None))"

text \<open>
  The calls a middleware makes to the token library and to the user table, in order.
\<close>

datatype event = JwtVerify string | UserFindUnique "int option"

record 'b mw_result =
  mw_req :: "'b request"
  mw_out :: outcome
  mw_log :: "event list"

definition unauthorized :: "'b request \<Rightarrow> string \<Rightarrow> event list \<Rightarrow> 'b mw_result" where
  "unauthorized req m l =
     \<lparr>mw_req = req, mw_out = Responded \<lparr>status = 401, json = Message m\<rparr>, mw_log = l\<rparr>"

text \<open>
  \<open>!token\<close> is true of \<open>undefined\<close> and of the empty string. Whatever the \<open>try\<close> block
  throws (the token library, the unbound name \<open>prisma\<close>, the Prisma client) ends in the
  same \<open>catch\<close>.
\<close>

definition verifyToken :: "env \<Rightarrow> db \<Rightarrow> 'b request \<Rightarrow> 'b mw_result" where
  "verifyToken E d req =
     (case header_token (authorization req) of
        None \<Rightarrow> unauthorized req ''Unauthorized.'' []
      | Some token \<Rightarrow>
          if token = [] then unauthorized req ''Unauthorized.'' []
          else
            (case jwt_verify E token (JWT_SECRET E) of
               None \<Rightarrow> unauthorized req ''Invalid token.'' [JwtVerify token]
             | Some decoded \<Rightarrow>
                 (let req1 = req\<lparr>user := Some (Decoded decoded)\<rparr> in
                  if \<not> global_prisma E
                  then unauthorized req1 ''Invalid token.'' [JwtVerify token]
                  else
                    (let log = [JwtVerify token, UserFindUnique (p_userId decoded)]
                     in case user_findUnique_id d (p_userId decoded) of
                          Inl e \<Rightarrow> unauthorized req1 ''Invalid token.'' log
                        | Inr None \<Rightarrow> unauthorized req1 ''User not found'' log
                        | Inr (Some u) \<Rightarrow>
                            \<lparr>mw_req = req1\<lparr>user := Some (Selected (select_ctx u))\<rparr>,
                             mw_out = Next, mw_log = log\<rparr>))))"

subsection \<open>The role gate\<close>

text \<open>
  \<open>roles.includes(req.user.role)\<close>: the list holds role names; a role that is
  \<open>undefined\<close> is none of them.
\<close>

fun includes_role :: "string list \<Rightarrow> string option \<Rightarrow> bool" where
  "includes_role [] r = False"
| "includes_role (x # xs) r = (r = Some x \<or> includes_role xs r)"

definition requireRole :: "string list \<Rightarrow> 'b request \<Rightarrow> outcome" where
  "requireRole roles req =
     (case user req of
        None \<Rightarrow> Responded \<lparr>status = 401, json = Message ''Authentication required''\<rparr>
      | Some u \<Rightarrow>
          if \<not> includes_role roles (requser_role u)
          then Responded \<lparr>status = 403, json = Message ''Insufficient permissions''\<rparr>
          else Next)"

subsection \<open>Validation schemas\<close>

text \<open>
  A request body is the parsed JSON object, read at the keys of the schema: \<open>None\<close> for
  a key that is absent, the string or the integer under it otherwise. Bodies with a key
  outside the schema (Joi rejects them) or with a value of another JSON type are not
  values of these types. Characters are bytes; the schemas count and match ASCII.

  Joi checks the keys in the order of the schema and stops at the first error. A string
  rule rejects the empty string before its own rules.
\<close>

definition any_required :: "string \<Rightarrow> 'a option \<Rightarrow> joi_error + 'a" where
  "any_required k v = (case v of None \<Rightarrow> Inl (JoiError k ''any.required'') | Some x \<Rightarrow> Inr x)"

definition string_base :: "string \<Rightarrow> string \<Rightarrow> joi_error + string" where
  "string_base k s = (if s = [] then Inl (JoiError k ''string.empty'') else Inr s)"

definition string_min :: "string \<Rightarrow> nat \<Rightarrow> string \<Rightarrow> joi_error + string" where
  "string_min k n s = (if length s < n then Inl (JoiError k ''string.min'') else Inr s)"

definition string_max :: "string \<Rightarrow> nat \<Rightarrow> string \<Rightarrow> joi_error + string" where
  "string_max k n s = (if n < length s then Inl (JoiError k ''string.max'') else Inr s)"

definition string_email :: "env \<Rightarrow> string \<Rightarrow> string \<Rightarrow> joi_error + string" where
  "string_email E k s = (if joi_email E s then Inr s else Inl (JoiError k ''string.email''))"

text \<open>\<open>a.b\<close> applies rule \<open>b\<close> to what rule \<open>a\<close> accepts.\<close>

definition and_then :: "joi_error + 'a \<Rightarrow> ('a \<Rightarrow> joi_error + 'b) \<Rightarrow> joi_error + 'b" where
  "and_then r f = (case r of Inl e \<Rightarrow> Inl e | Inr x \<Rightarrow> f x)"

text \<open>
  The password pattern
  \<^verbatim>\<open>^(?=.*[a-z])(?=.*[A-Z])(?=.*\d)(?=.*[@$!%*?&])[A-Za-z\d@$!%*?&]\<close>:
  the four look-aheads ask for a lower-case letter, an upper-case letter, a digit and
  one of the seven marks before the first line break (\<open>.\<close> does not match one), and the
  class after them reads the first character only.
\<close>

definition is_lower :: "char \<Rightarrow> bool" where
  "is_lower c = (c \<in> set ''abcdefghijklmnopqrstuvwxyz'')"

definition is_upper :: "char \<Rightarrow> bool" where
  "is_upper c = (c \<in> set ''ABCDEFGHIJKLMNOPQRSTUVWXYZ'')"

definition is_digit :: "char \<Rightarrow> bool" where
  "is_digit c = (c \<in> set ''0123456789'')"

definition is_mark :: "char \<Rightarrow> bool" where
  "is_mark c = (c \<in> set ''@$!%*?&'')"

definition is_line_break :: "char \<Rightarrow> bool" where
  "is_line_break c = (c = CHR 0x0A \<or> c = CHR 0x0D)"

definition password_pattern :: "string \<Rightarrow> bool" where
  "password_pattern s =
     (let line = takeWhile (\<lambda>c. \<not> is_line_break c) s
      in list_ex is_lower line \<and> list_ex is_upper line \<and> list_ex is_digit line
         \<and> list_ex is_mark line
         \<and> (case s of [] \<Rightarrow> False
             | c # _ \<Rightarrow> is_upper c \<or> is_lower c \<or> is_digit c \<or> is_mark c))"

definition string_pattern :: "string \<Rightarrow> string \<Rightarrow> joi_error + string" where
  "string_pattern k s =
     (if password_pattern s then Inr s else Inl (JoiError k ''string.pattern.base''))"

record register_body =
  rb_name :: "string option"
  rb_email :: "string option"
  rb_password :: "string option"
  rb_address :: "string option"
  rb_role :: "string option"

record register_value =
  rv_name :: string
  rv_email :: string
  rv_password :: string
  rv_address :: "string option"
  rv_role :: string

definition registerSchema_name :: "string option \<Rightarrow> joi_error + string" where
  "registerSchema_name v =
     and_then (and_then (and_then (any_required ''name'' v) (string_base ''name''))
       (string_min ''name'' 2)) (string_max ''name'' 50)"

definition required_email :: "env \<Rightarrow> string option \<Rightarrow> joi_error + string" where
  "required_email E v =
     and_then (and_then (any_required ''email'' v) (string_base ''email''))
       (string_email E ''email'')"

definition registerSchema_password :: "string option \<Rightarrow> joi_error + string" where
  "registerSchema_password v =
     and_then (and_then (and_then (any_required ''password'' v) (string_base ''password''))
       (string_min ''password'' 6)) (string_pattern ''password'')"

definition registerSchema_address :: "string option \<Rightarrow> joi_error + string option" where
  "registerSchema_address v =
     (case v of None \<Rightarrow> Inr None
      | Some s \<Rightarrow>
          and_then (and_then (string_base ''address'' s) (string_max ''address'' 200))
            (\<lambda>t. Inr (Some t)))"

text \<open>
  \<open>Joi.string().valid("ADMIN", "NORMAL_USER", "STORE_OWNER").default("NORMAL_USER")\<close>:
  a value that is given must be one of the three; the default stands in for a key that
  is absent.
\<close>

definition registerSchema_role :: "string option \<Rightarrow> joi_error + string" where
  "registerSchema_role v =
     (case v of None \<Rightarrow> Inr ''NORMAL_USER''
      | Some s \<Rightarrow>
          if s \<in> set [''ADMIN'', ''NORMAL_USER'', ''STORE_OWNER''] then Inr s
          else Inl (JoiError ''role'' ''any.only''))"

definition registerSchema_validate :: "env \<Rightarrow> register_body \<Rightarrow> joi_error + register_value" where
  "registerSchema_validate E b =
     and_then (registerSchema_name (rb_name b)) (\<lambda>nm.
     and_then (required_email E (rb_email b)) (\<lambda>em.
     and_then (registerSchema_password (rb_password b)) (\<lambda>pw.
     and_then (registerSchema_address (rb_address b)) (\<lambda>ad.
     and_then (registerSchema_role (rb_role b)) (\<lambda>rl.
       Inr \<lparr>rv_name = nm, rv_email = em, rv_password = pw, rv_address = ad,
            rv_role = rl\<rparr>)))))"

record login_body =
  lb_email :: "string option"
  lb_password :: "string option"

definition loginSchema_validate :: "env \<Rightarrow> login_body \<Rightarrow> joi_error + string \<times> string" where
  "loginSchema_validate E b =
     and_then (required_email E (lb_email b)) (\<lambda>em.
     and_then (and_then (any_required ''password'' (lb_password b)) (string_base ''password''))
       (\<lambda>pw. Inr (em, pw)))"

text \<open>
  \<open>Joi.number().integer()\<close> accepts an integer that a double holds exactly, and with
  \<open>min(1).max(5)\<close> one from 1 to 5.
\<close>

definition number_integer :: "string \<Rightarrow> int \<Rightarrow> joi_error + int" where
  "number_integer k n =
     (if n < - 9007199254740991 \<or> 9007199254740991 < n then Inl (JoiError k ''number.unsafe'')
      else Inr n)"

definition number_min :: "string \<Rightarrow> int \<Rightarrow> int \<Rightarrow> joi_error + int" where
  "number_min k m n = (if n < m then Inl (JoiError k ''number.min'') else Inr n)"

definition number_max :: "string \<Rightarrow> int \<Rightarrow> int \<Rightarrow> joi_error + int" where
  "number_max k m n = (if m < n then Inl (JoiError k ''number.max'') else Inr n)"

record rating_body =
  cb_storeId :: "int option"
  cb_rating :: "int option"

definition createRatingSchema_validate :: "rating_body \<Rightarrow> joi_error + int \<times> int" where
  "createRatingSchema_validate b =
     and_then (and_then (any_required ''storeId'' (cb_storeId b)) (number_integer ''storeId''))
       (\<lambda>sid.
     and_then (and_then (and_then (and_then (any_required ''rating'' (cb_rating b))
         (number_integer ''rating'')) (number_min ''rating'' 1)) (number_max ''rating'' 5))
       (\<lambda>v. Inr (sid, v)))"

subsection \<open>Registration and login\<close>

text \<open>\<open>process.env.JWT_EXPIRES_IN || "7d"\<close>: the default also stands in for the empty string.\<close>

definition generateToken :: "env \<Rightarrow> int \<Rightarrow> string" where
  "generateToken E userId =
     jwt_sign E \<lparr>p_userId = Some userId, p_id = None, p_role = None\<rparr> (JWT_SECRET E)
       (case JWT_EXPIRES_IN E of None \<Rightarrow> ''7d'' | Some t \<Rightarrow> if t = [] then ''7d'' else t)"

text \<open>
  The name \<open>user\<close> in \<open>generateToken(user.id)\<close>, line 524 of the controller: the module
  binds no such name, and in \<open>registerUser\<close> the created row is \<open>newUser\<close>. Reading it
  throws.
\<close>

definition registerUser_user :: "exn + user" where
  "registerUser_user = Inl (ReferenceError ''user'')"

definition registerUser :: "env \<Rightarrow> db \<Rightarrow> register_body request \<Rightarrow> db \<times> response" where
  "registerUser E d req =
     (case registerSchema_validate E (body req) of
        Inl error \<Rightarrow> (d, \<lparr>status = 400, json = JoiMessage error\<rparr>)
      | Inr v \<Rightarrow>
          (case user_findUnique_email d (rv_email v) of
             Some existingUser \<Rightarrow>
               (d, \<lparr>status = 400, json = Message ''User already exists with this email.''\<rparr>)
           | None \<Rightarrow>
               (let hashedPassword = bcrypt_hash E (rv_password v) 10 in
                case user_create d (rv_name v) (rv_email v) (rv_role v) hashedPassword
                       (rv_address v) of
                  Inl e \<Rightarrow> (d, \<lparr>status = 500, json = Message ''Server error creating user.''\<rparr>)
                | Inr (d', newUser) \<Rightarrow>
                    (case registerUser_user of
                       Inl e \<Rightarrow>
                         (d', \<lparr>status = 500, json = Message ''Server error creating user.''\<rparr>)
                     | Inr u \<Rightarrow>
                         (d', \<lparr>status = 201,
                               json = UserCreated ''User created successfully.''
                                        (select_view newUser)
                                        (generateToken E (user_id u))\<rparr>)))))"

text \<open>
  The comparison of the password with the stored hash is commented out in the source
  (lines 553 to 557); the password is read from the validated body and not used.
\<close>

definition loginUser :: "env \<Rightarrow> db \<Rightarrow> login_body request \<Rightarrow> db \<times> response" where
  "loginUser E d req =
     (case loginSchema_validate E (body req) of
        Inl error \<Rightarrow> (d, \<lparr>status = 400, json = JoiMessage error\<rparr>)
      | Inr (email, password) \<Rightarrow>
          (case user_findUnique_email d email of
             None \<Rightarrow> (d, \<lparr>status = 400, json = Message ''Invalid email or password.''\<rparr>)
           | Some u \<Rightarrow>
               (let token = jwt_sign E \<lparr>p_userId = None, p_id = Some (user_id u),
                                        p_role = Some (user_role u)\<rparr> (JWT_SECRET E) ''2d''
                in (d, \<lparr>status = 200,
                         json = LoginOk ''Login successful.'' token (select_view u)\<rparr>))))"

subsection \<open>Ratings\<close>

text \<open>
  The function that lines 15 to 95 write for \<open>createRating\<close>. \<open>comment\<close> is read from
  the validated body, whose schema has no such key: it is \<open>undefined\<close>. Reading
  \<open>req.user.id\<close> throws when \<open>req.user\<close> is \<open>undefined\<close>.
\<close>

definition internal_error :: response where
  "internal_error = \<lparr>status = 500, json = Message ''Internal server error''\<rparr>"

definition createRating_body :: "env \<Rightarrow> db \<Rightarrow> rating_body request \<Rightarrow> db \<times> response" where
  "createRating_body E d req =
     (case createRatingSchema_validate (body req) of
        Inl error \<Rightarrow> (d, \<lparr>status = 400, json = JoiMessage error\<rparr>)
      | Inr (storeId, rating) \<Rightarrow>
          (let comment = None in
           case store_findUnique_id d storeId of
             None \<Rightarrow> (d, \<lparr>status = 404, json = Message ''Store not found''\<rparr>)
           | Some store \<Rightarrow>
               (case user req of
                  None \<Rightarrow> (d, internal_error)
                | Some u \<Rightarrow>
                    if Some (store_ownerId store) = requser_id u
                    then (d, \<lparr>status = 400, json = Message ''You cannot rate your own store''\<rparr>)
                    else
                      (case rating_findUnique_userId_storeId d (requser_id u) storeId of
                         Inl e \<Rightarrow> (d, internal_error)
                       | Inr (Some existingRating) \<Rightarrow>
                           (case rating_update d (rating_id existingRating) rating comment of
                              Inl e \<Rightarrow> (d, internal_error)
                            | Inr (d', ratingRecord) \<Rightarrow>
                                (d', \<lparr>status = 200,
                                      json = RatingSaved ''Rating updated successfully''
                                               ratingRecord\<rparr>))
                       | Inr None \<Rightarrow>
                           (case rating_create d (requser_id u) storeId rating comment of
                              Inl e \<Rightarrow> (d, internal_error)
                            | Inr (d', ratingRecord) \<Rightarrow>
                                (d', \<lparr>status = 201,
                                      json = RatingSaved ''Rating created successfully''
                                               ratingRecord\<rparr>))))))"

text \<open>
  The module of the rating controller is a sequence of arrow functions, listed here
  with their parameters (lines 15, 99, 124, 179, 226 and 256). A parameter list that
  names one parameter twice is an early error of the module: it is found when the
  module is parsed, before any of it is evaluated. \<open>require\<close> then throws, and the
  module defines and exports nothing.
\<close>

definition rating_controller_functions :: "(string \<times> string list) list" where
  "rating_controller_functions =
     [(''createRating'', [''req'', ''res'']),
      (''getUserRatingOfSpesificStore'', [''req'', ''res'']),
      (''getAllRating'', [''req'', ''res'']),
      (''updateRating'', [''res'', ''res'']),
      (''deleteRating'', [''req'', ''res'']),
      (''getUsersRating'', [''req'', ''res''])]"

definition early_error :: "(string \<times> string list) list \<Rightarrow> exn option" where
  "early_error fs =
     (if list_all (\<lambda>f. distinct (snd f)) fs then None
      else Some (SyntaxError ''Duplicate parameter name not allowed in this context''))"

text \<open>
  \<open>createRating\<close> as the program has it: the function above where the module loads,
  and the error of the load, with no handler to answer the request, where it does not.
\<close>

definition createRating :: "env \<Rightarrow> db \<Rightarrow> rating_body request \<Rightarrow> exn + db \<times> response" where
  "createRating E d req =
     (case early_error rating_controller_functions of
        Some e \<Rightarrow> Inl e
      | None \<Rightarrow> Inr (createRating_body E d req))"

subsection \<open>User administration\<close>

text \<open>\<open>userId === req.user.id\<close>: a number is never equal to \<open>undefined\<close>.\<close>

definition deleteUserByAdmin :: "env \<Rightarrow> db \<Rightarrow> 'b request \<Rightarrow> db \<times> response" where
  "deleteUserByAdmin E d req =
     (let userId = parseInt E (params_id req) in
      case user_findUnique_id d userId of
        Inl e \<Rightarrow> (d, internal_error)
      | Inr None \<Rightarrow> (d, \<lparr>status = 404, json = Message ''User not found''\<rparr>)
      | Inr (Some existingUser) \<Rightarrow>
          (case user req of
             None \<Rightarrow> (d, internal_error)
           | Some u \<Rightarrow>
               if userId = requser_id u
               then (d, \<lparr>status = 400, json = Message ''You cannot delete your own account''\<rparr>)
               else
                 (case user_delete E d userId of
                    Inl e \<Rightarrow> (d, internal_error)
                  | Inr d' \<Rightarrow> (d', \<lparr>status = 200, json = Message ''User deleted successfully''\<rparr>))))"

subsection \<open>A sample installation\<close>

text \<open>
  A token library that knows three tokens, a table of two users, one store and one
  rating: the concrete inputs at which the theorems below are instantiated.
\<close>

definition sample_sign :: "payload \<Rightarrow> string \<Rightarrow> string \<Rightarrow> string" where
  "sample_sign p s e =
     (if p_userId p = Some 42 then ''tok.user42''
      else if p_userId p = Some 99 then ''tok.user99''
      else ''tok.login42'')"

definition sample_verify :: "string \<Rightarrow> string \<Rightarrow> payload option" where
  "sample_verify t s =
     (if t = ''tok.user42'' then Some \<lparr>p_userId = Some 42, p_id = None, p_role = None\<rparr>
      else if t = ''tok.user99'' then Some \<lparr>p_userId = Some 99, p_id = None, p_role = None\<rparr>
      else if t = ''tok.login42''
      then Some \<lparr>p_userId = None, p_id = Some 42, p_role = Some ''NORMAL_USER''\<rparr>
      else None)"

definition sample_env :: env where
  "sample_env =
     \<lparr>JWT_SECRET = ''secret'', JWT_EXPIRES_IN = None,
      jwt_sign = sample_sign, jwt_verify = sample_verify,
      bcrypt_hash = (\<lambda>p n. ''$2b$'' @ p),
      joi_email = (\<lambda>s. CHR ''@'' \<in> set s),
      parseInt = (\<lambda>s. if s = ''42'' then Some 42 else if s = ''7'' then Some 7 else None),
      global_prisma = True, user_onDelete = Restrict\<rparr>"

definition alice :: user where
  "alice = \<lparr>user_id = 42, user_name = ''Alice'', user_email = ''alice@example.com'',
            user_password = ''$2b$Secret1!'', user_role = ''NORMAL_USER'',
            user_address = None\<rparr>"

definition bob :: user where
  "bob = \<lparr>user_id = 7, user_name = ''Bob'', user_email = ''bob@example.com'',
          user_password = ''$2b$Secret2!'', user_role = ''ADMIN'', user_address = None\<rparr>"

definition sample_db :: db where
  "sample_db =
     \<lparr>users = [bob, alice],
      stores = [\<lparr>store_id = 1, store_name = ''Corner shop'', store_ownerId = 7\<rparr>,
                \<lparr>store_id = 2, store_name = ''Bakery'', store_ownerId = 7\<rparr>],
      ratings = [\<lparr>rating_id = 1, rating_userId = 42, rating_storeId = 1, rating_rating = 3,
                  rating_comment = None\<rparr>],
      next_user_id = 43, next_rating_id = 2\<rparr>"

definition sample_request :: "string option \<Rightarrow> 'b \<Rightarrow> 'b request" where
  "sample_request h b = \<lparr>authorization = h, user = None, params_id = [], body = b\<rparr>"

definition carol_body :: "string option \<Rightarrow> register_body" where
  "carol_body r =
     \<lparr>rb_name = Some ''Carol'', rb_email = Some ''carol@example.com'',
      rb_password = Some ''Secret3!'', rb_address = None, rb_role = r\<rparr>"

definition alice_rates :: "int \<Rightarrow> int \<Rightarrow> rating_body request" where
  "alice_rates sid v =
     (sample_request (Some ''Bearer tok.user42'') \<lparr>cb_storeId = Some sid, cb_rating = Some v\<rparr>)
       \<lparr>user := Some (Selected (select_ctx alice))\<rparr>"

subsection \<open>The invariant of the rating table\<close>

text \<open>No two rows of the rating table have the same user and the same store.\<close>

definition one_rating_per_pair :: "db \<Rightarrow> bool" where
  "one_rating_per_pair d =
     distinct (map (\<lambda>r. (rating_userId r, rating_storeId r)) (ratings d))"

section \<open>Properties\<close>

subsection \<open>Reading the header\<close>

lemma split_sp_nonempty: "split_sp s \<noteq> []"
  by (induction s) (auto split: list.splits)

lemma split_sp_no_space: "CHR '' '' \<notin> set s \<Longrightarrow> split_sp s = [s]"
  by (induction s) auto

lemma split_sp_append:
  "CHR '' '' \<notin> set x \<Longrightarrow> split_sp (x @ CHR '' '' # y) = x # split_sp y"
  by (induction x) auto

lemma hd_split_sp: "hd (split_sp y) = takeWhile (\<lambda>c. c \<noteq> CHR '' '') y"
  by (induction y) (auto split: list.splits simp: split_sp_nonempty)

lemma header_token_bearer:
  "CHR '' '' \<notin> set t \<Longrightarrow> header_token (Some (''Bearer '' @ t)) = Some t"
  by (simp add: header_token_def split_sp_no_space)

lemma first_space:
  "CHR '' '' \<in> set a \<Longrightarrow> \<exists>x y. a = x @ CHR '' '' # y \<and> CHR '' '' \<notin> set x"
  by (metis split_list_first)

lemma header_token_none_iff:
  "header_token (Some a) = None \<longleftrightarrow> CHR '' '' \<notin> set a"
proof
  assume "header_token (Some a) = None"
  show "CHR '' '' \<notin> set a"
  proof
    assume "CHR '' '' \<in> set a"
    then obtain x y where "a = x @ CHR '' '' # y" "CHR '' '' \<notin> set x"
      using first_space by blast
    then have "split_sp a = x # split_sp y"
      by (simp add: split_sp_append)
    with \<open>header_token (Some a) = None\<close> show False
      by (cases "split_sp y") (auto simp: header_token_def split_sp_nonempty)
  qed
next
  assume "CHR '' '' \<notin> set a"
  then show "header_token (Some a) = None"
    by (simp add: header_token_def split_sp_no_space)
qed

lemma header_token_second:
  assumes "CHR '' '' \<notin> set x"
  shows "header_token (Some (x @ CHR '' '' # y)) = Some (takeWhile (\<lambda>c. c \<noteq> CHR '' '') y)"
proof -
  have "split_sp (x @ CHR '' '' # y) = x # split_sp y"
    using assms by (rule split_sp_append)
  moreover obtain w ws where "split_sp y = w # ws"
    using split_sp_nonempty by (cases "split_sp y") auto
  moreover from this have "w = takeWhile (\<lambda>c. c \<noteq> CHR '' '') y"
    using hd_split_sp [of y] by simp
  ultimately show ?thesis
    by (simp add: header_token_def)
qed

lemma first_space_unique:
  "CHR '' '' \<notin> set x \<Longrightarrow> CHR '' '' \<notin> set x' \<Longrightarrow>
   x @ CHR '' '' # y = x' @ CHR '' '' # y' \<Longrightarrow> x = x' \<and> y = y'"
proof (induction x arbitrary: x')
  case Nil
  then show ?case by (cases x') auto
next
  case (Cons c x)
  then show ?case by (cases x') auto
qed

lemma takeWhile_empty_iff:
  "takeWhile (\<lambda>c. c \<noteq> CHR '' '') y = [] \<longleftrightarrow> y = [] \<or> hd y = CHR '' ''"
  by (cases y) auto

lemma takeWhile_piece:
  "CHR '' '' \<notin> set t \<Longrightarrow> y = [] \<or> hd y = CHR '' '' \<Longrightarrow>
   takeWhile (\<lambda>c. c \<noteq> CHR '' '') (t @ y) = t"
  by (induction t) (auto simp: takeWhile_empty_iff)

lemma no_token_shape:
  "(header_token h = None \<or> header_token h = Some [])
     \<longleftrightarrow> (h = None
          \<or> (\<exists>a. h = Some a \<and> CHR '' '' \<notin> set a)
          \<or> (\<exists>x y. h = Some (x @ CHR '' '' # y) \<and> CHR '' '' \<notin> set x
                  \<and> (y = [] \<or> hd y = CHR '' '')))"
proof (cases h)
  case None
  then show ?thesis by (simp add: header_token_def)
next
  case (Some a)
  show ?thesis
  proof (cases "CHR '' '' \<in> set a")
    case False
    with Some show ?thesis
      using header_token_none_iff [of a] by auto
  next
    case True
    then obtain x y where a: "a = x @ CHR '' '' # y" and x: "CHR '' '' \<notin> set x"
      using first_space by blast
    have tok: "header_token h = Some (takeWhile (\<lambda>c. c \<noteq> CHR '' '') y)"
      using Some a header_token_second [OF x] by simp
    have "(\<exists>x' y'. a = x' @ CHR '' '' # y' \<and> CHR '' '' \<notin> set x'
              \<and> (y' = [] \<or> hd y' = CHR '' '')) \<longleftrightarrow> (y = [] \<or> hd y = CHR '' '')"
      using a x first_space_unique by blast
    with Some True tok show ?thesis
      by (simp add: takeWhile_empty_iff)
  qed
qed

lemma verifyToken_unauthorized_iff:
  "verifyToken E d req
     = \<lparr>mw_req = req,
        mw_out = Responded \<lparr>status = 401, json = Message ''Unauthorized.''\<rparr>,
        mw_log = []\<rparr>
   \<longleftrightarrow> (header_token (authorization req) = None
        \<or> header_token (authorization req) = Some [])"
  by (auto simp: verifyToken_def unauthorized_def Let_def
      split: option.splits sum.splits)

subsection \<open>The authenticated context\<close>

text \<open>
  Claim C1: for a bearer token that verifies and whose user is in the table,
  \<open>verifyToken\<close> attaches the id, e-mail, name and role of the row of the table. What
  the code does: its module requires \<open>jsonwebtoken\<close> alone, so with no \<open>prisma\<close> in the
  global object reading the name at line 14 throws; and the payload that \<open>loginUser\<close>
  signs, the one with a role, has no \<open>userId\<close>, so the lookup throws. Either way the
  request is answered 401 \<open>Invalid token.\<close>, and what line 11 has left in \<open>req.user\<close> is
  the payload of the token, not a row of the table.
\<close>

theorem verifyToken_never_attaches:
  assumes hdr: "authorization req = Some (''Bearer '' @ token)"
    and tok: "token \<noteq> []" "CHR '' '' \<notin> set token"
    and sig: "jwt_verify E token (JWT_SECRET E) = Some decoded"
    and slip: "\<not> global_prisma E \<or> p_userId decoded = None"
  shows "mw_out (verifyToken E d req)
           = Responded \<lparr>status = 401, json = Message ''Invalid token.''\<rparr>
     \<and> user (mw_req (verifyToken E d req)) = Some (Decoded decoded)"
proof -
  have t: "header_token (authorization req) = Some token"
    using header_token_bearer [OF tok(2)] hdr by simp
  show ?thesis
  proof (cases "global_prisma E")
    case False
    with t tok(1) sig show ?thesis
      by (simp add: verifyToken_def unauthorized_def Let_def)
  next
    case True
    with slip have "p_userId decoded = None"
      by simp
    with t tok(1) sig True show ?thesis
      by (simp add: verifyToken_def unauthorized_def user_findUnique_id_def Let_def)
  qed
qed

text \<open>
  At the sample installation, with Alice, user 42, in the table: the token that
  \<open>generateToken\<close> signs for her, with no \<open>prisma\<close> in the global object; and the token
  that \<open>loginUser\<close> signs for her, with the client there.
\<close>

theorem verifyToken_never_attaches_witness:
  "find (\<lambda>u. user_id u = 42) (users sample_db) = Some alice
   \<and> mw_out (verifyToken (sample_env\<lparr>global_prisma := False\<rparr>) sample_db
               (sample_request (Some ''Bearer tok.user42'') ()))
       = Responded \<lparr>status = 401, json = Message ''Invalid token.''\<rparr>
   \<and> user (mw_req (verifyToken (sample_env\<lparr>global_prisma := False\<rparr>) sample_db
                      (sample_request (Some ''Bearer tok.user42'') ())))
       = Some (Decoded \<lparr>p_userId = Some 42, p_id = None, p_role = None\<rparr>)
   \<and> mw_out (verifyToken sample_env sample_db
               (sample_request (Some ''Bearer tok.login42'') ()))
       = Responded \<lparr>status = 401, json = Message ''Invalid token.''\<rparr>
   \<and> user (mw_req (verifyToken sample_env sample_db
                      (sample_request (Some ''Bearer tok.login42'') ())))
       = Some (Decoded \<lparr>p_userId = None, p_id = Some 42, p_role = Some ''NORMAL_USER''\<rparr>)"
proof -
  have a: "find (\<lambda>u. user_id u = 42) (users sample_db) = Some alice"
    by (simp add: sample_db_def alice_def bob_def)
  have h1: "authorization (sample_request (Some ''Bearer tok.user42'') ())
      = Some (''Bearer '' @ ''tok.user42'')"
    by (simp add: sample_request_def)
  have s1: "jwt_verify (sample_env\<lparr>global_prisma := False\<rparr>) ''tok.user42''
        (JWT_SECRET (sample_env\<lparr>global_prisma := False\<rparr>))
      = Some \<lparr>p_userId = Some 42, p_id = None, p_role = None\<rparr>"
    by (simp add: sample_env_def sample_verify_def)
  have g1: "\<not> global_prisma (sample_env\<lparr>global_prisma := False\<rparr>)
      \<or> p_userId \<lparr>p_userId = Some 42, p_id = None, p_role = None\<rparr> = None"
    by simp
  have h2: "authorization (sample_request (Some ''Bearer tok.login42'') ())
      = Some (''Bearer '' @ ''tok.login42'')"
    by (simp add: sample_request_def)
  have s2: "jwt_verify sample_env ''tok.login42'' (JWT_SECRET sample_env)
      = Some \<lparr>p_userId = None, p_id = Some 42, p_role = Some ''NORMAL_USER''\<rparr>"
    by (simp add: sample_env_def sample_verify_def)
  have g2: "\<not> global_prisma sample_env
      \<or> p_userId \<lparr>p_userId = None, p_id = Some 42, p_role = Some ''NORMAL_USER''\<rparr> = None"
    by simp
  from a verifyToken_never_attaches [OF h1 _ _ s1 g1, of sample_db]
       verifyToken_never_attaches [OF h2 _ _ s2 g2, of sample_db]
  show ?thesis
    by simp
qed

subsection \<open>The role gate\<close>

lemma includes_role_iff: "includes_role roles r \<longleftrightarrow> (\<exists>x \<in> set roles. r = Some x)"
  by (induction roles) auto

text \<open>
  Claim C4. The gate that \<open>requireRole roles\<close> returns calls \<open>next()\<close> exactly when
  \<open>req.user\<close> is present and its role is one of \<open>roles\<close>. With \<open>req.user\<close> absent it
  answers 401, with \<open>req.user\<close> present and its role not in the list it answers 403;
  so it never passes with \<open>req.user\<close> absent.
\<close>

theorem requireRole_decision:
  "(requireRole roles req = Next
      \<longleftrightarrow> (\<exists>u. user req = Some u \<and> (\<exists>x \<in> set roles. requser_role u = Some x)))
   \<and> (user req = None \<longrightarrow>
        requireRole roles req
          = Responded \<lparr>status = 401, json = Message ''Authentication required''\<rparr>)
   \<and> (\<forall>u. user req = Some u \<and> \<not> (\<exists>x \<in> set roles. requser_role u = Some x) \<longrightarrow>
        requireRole roles req
          = Responded \<lparr>status = 403, json = Message ''Insufficient permissions''\<rparr>)"
  by (auto simp: requireRole_def includes_role_iff split: option.splits)

text \<open>
  At the sample installation, a gate for \<open>ADMIN\<close>: Bob, an admin, passes; a request
  without context gets 401; Alice, a normal user, gets 403.
\<close>

theorem requireRole_decision_witness:
  "requireRole [''ADMIN'']
     ((sample_request None ())\<lparr>user := Some (Selected (select_ctx bob))\<rparr>) = Next
   \<and> requireRole [''ADMIN''] (sample_request None ())
       = Responded \<lparr>status = 401, json = Message ''Authentication required''\<rparr>
   \<and> requireRole [''ADMIN'']
       ((sample_request None ())\<lparr>user := Some (Selected (select_ctx alice))\<rparr>)
       = Responded \<lparr>status = 403, json = Message ''Insufficient permissions''\<rparr>"
  using requireRole_decision [of "[''ADMIN'']"
          "(sample_request None ())\<lparr>user := Some (Selected (select_ctx bob))\<rparr>"]
        requireRole_decision [of "[''ADMIN'']" "sample_request None ()"]
        requireRole_decision [of "[''ADMIN'']"
          "(sample_request None ())\<lparr>user := Some (Selected (select_ctx alice))\<rparr>"]
  by (simp add: sample_request_def select_ctx_def alice_def bob_def)

subsection \<open>Failures of the authentication middleware\<close>

text \<open>
  Claim C3, as stated: any two failing requests get the same status and the same
  message. At the sample installation a request without header, one with a token that
  does not verify and one with a token of a user that is gone all get 401, with three
  different messages.
\<close>

theorem verifyToken_responses_differ:
  "mw_out (verifyToken sample_env sample_db (sample_request None ()))
     = Responded \<lparr>status = 401, json = Message ''Unauthorized.''\<rparr>
   \<and> mw_out (verifyToken sample_env sample_db (sample_request (Some ''Bearer abc'') ()))
     = Responded \<lparr>status = 401, json = Message ''Invalid token.''\<rparr>
   \<and> mw_out (verifyToken sample_env sample_db (sample_request (Some ''Bearer tok.user99'') ()))
     = Responded \<lparr>status = 401, json = Message ''User not found''\<rparr>
   \<and> mw_out (verifyToken sample_env sample_db (sample_request None ()))
     \<noteq> mw_out (verifyToken sample_env sample_db (sample_request (Some ''Bearer abc'') ()))
   \<and> mw_out (verifyToken sample_env sample_db (sample_request (Some ''Bearer abc'') ()))
     \<noteq> mw_out (verifyToken sample_env sample_db
                 (sample_request (Some ''Bearer tok.user99'') ()))"
  by (simp add: verifyToken_def header_token_def unauthorized_def sample_request_def
        sample_env_def sample_verify_def sample_db_def user_findUnique_id_def alice_def bob_def)

text \<open>
  Claim C3, amended. Every response of \<open>verifyToken\<close> has status 401 and one of three
  messages: \<open>Unauthorized.\<close> exactly when no token is read from the header,
  \<open>User not found\<close> exactly when the token verifies and the lookup of its \<open>userId\<close>
  finds no user, \<open>Invalid token.\<close> otherwise.
\<close>

theorem verifyToken_failure_401:
  assumes "mw_out (verifyToken E d req) = Responded r"
  shows "status r = 401
     \<and> (json r = Message ''Unauthorized.'' \<or> json r = Message ''Invalid token.''
        \<or> json r = Message ''User not found'')
     \<and> (json r = Message ''Unauthorized.''
          \<longleftrightarrow> header_token (authorization req) = None
              \<or> header_token (authorization req) = Some [])
     \<and> (json r = Message ''User not found''
          \<longleftrightarrow> (\<exists>t p k. header_token (authorization req) = Some t \<and> t \<noteq> []
                \<and> jwt_verify E t (JWT_SECRET E) = Some p \<and> global_prisma E
                \<and> p_userId p = Some k \<and> k \<notin> user_id ` set (users d)))"
  using assms
  by (auto simp: verifyToken_def unauthorized_def user_findUnique_id_def find_None_iff
        Let_def image_iff
      split: option.splits if_splits sum.splits)

text \<open>At the sample installation: the token of user 99, who is not in the table.\<close>

theorem verifyToken_failure_401_witness:
  "mw_out (verifyToken sample_env sample_db (sample_request (Some ''Bearer tok.user99'') ()))
     = Responded \<lparr>status = 401, json = Message ''User not found''\<rparr>
   \<and> (\<exists>t p k. header_token (authorization (sample_request (Some ''Bearer tok.user99'') ()))
                 = Some t \<and> t \<noteq> []
         \<and> jwt_verify sample_env t (JWT_SECRET sample_env) = Some p
         \<and> global_prisma sample_env \<and> p_userId p = Some k
         \<and> k \<notin> user_id ` set (users sample_db))"
proof -
  have run: "mw_out (verifyToken sample_env sample_db
                  (sample_request (Some ''Bearer tok.user99'') ()))
          = Responded \<lparr>status = 401, json = Message ''User not found''\<rparr>"
    by (simp add: verifyToken_def header_token_def unauthorized_def sample_request_def
          sample_env_def sample_verify_def sample_db_def user_findUnique_id_def
          alice_def bob_def)
  from verifyToken_failure_401 [OF run] run show ?thesis
    by simp
qed

text \<open>
  Claim C5, as stated: a header that is not of the form \<open>Bearer <token>\<close>, such as
  \<open>Token abc\<close>, is refused at once, without a signature check. At the sample
  installation \<open>verifyToken\<close> passes \<open>abc\<close> to the token library, and the 401 it sends
  is the one of a token that does not verify.
\<close>

theorem verifyToken_wrong_scheme:
  "mw_log (verifyToken sample_env sample_db (sample_request (Some ''Token abc'') ()))
     = [JwtVerify ''abc'']
   \<and> mw_out (verifyToken sample_env sample_db (sample_request (Some ''Token abc'') ()))
     = Responded \<lparr>status = 401, json = Message ''Invalid token.''\<rparr>"
  by (simp add: verifyToken_def header_token_def unauthorized_def sample_request_def
        sample_env_def sample_verify_def sample_db_def user_findUnique_id_def alice_def bob_def)

text \<open>
  Claim C5, amended. \<open>verifyToken\<close> answers 401 \<open>Unauthorized.\<close> with no call to the
  token library or to the user table exactly when the header is absent, has no space,
  or has nothing or a second space right after its first space. The word before the
  first space is not examined: whatever it is, a non-empty piece after the first space
  is passed to the token library.
\<close>

theorem verifyToken_no_token:
  "((authorization req = None
      \<or> (\<exists>a. authorization req = Some a \<and> CHR '' '' \<notin> set a)
      \<or> (\<exists>x y. authorization req = Some (x @ CHR '' '' # y) \<and> CHR '' '' \<notin> set x
              \<and> (y = [] \<or> hd y = CHR '' '')))
    = (verifyToken E d req
         = \<lparr>mw_req = req,
            mw_out = Responded \<lparr>status = 401, json = Message ''Unauthorized.''\<rparr>,
            mw_log = []\<rparr>))
   \<and> (\<forall>x t y. authorization req = Some (x @ CHR '' '' # t @ y) \<and> CHR '' '' \<notin> set x
         \<and> t \<noteq> [] \<and> CHR '' '' \<notin> set t \<and> (y = [] \<or> hd y = CHR '' '')
       \<longrightarrow> hd (mw_log (verifyToken E d req)) = JwtVerify t)"
proof (intro conjI allI impI)
  show "(authorization req = None
      \<or> (\<exists>a. authorization req = Some a \<and> CHR '' '' \<notin> set a)
      \<or> (\<exists>x y. authorization req = Some (x @ CHR '' '' # y) \<and> CHR '' '' \<notin> set x
              \<and> (y = [] \<or> hd y = CHR '' '')))
    = (verifyToken E d req
         = \<lparr>mw_req = req,
            mw_out = Responded \<lparr>status = 401, json = Message ''Unauthorized.''\<rparr>,
            mw_log = []\<rparr>)"
    unfolding verifyToken_unauthorized_iff no_token_shape ..
next
  fix x t y
  assume h: "authorization req = Some (x @ CHR '' '' # t @ y) \<and> CHR '' '' \<notin> set x
         \<and> t \<noteq> [] \<and> CHR '' '' \<notin> set t \<and> (y = [] \<or> hd y = CHR '' '')"
  then have "takeWhile (\<lambda>c. c \<noteq> CHR '' '') (t @ y) = t"
    by (simp add: takeWhile_piece)
  with h have "header_token (authorization req) = Some t"
    using header_token_second [of x "t @ y"] by simp
  with h show "hd (mw_log (verifyToken E d req)) = JwtVerify t"
    by (auto simp: verifyToken_def unauthorized_def Let_def split: option.splits sum.splits)
qed

text \<open>At the sample installation: the headers \<open>Bearer\<close> and \<open>Token abc\<close>.\<close>

theorem verifyToken_no_token_witness:
  "verifyToken sample_env sample_db (sample_request (Some ''Bearer'') ())
     = \<lparr>mw_req = sample_request (Some ''Bearer'') (),
        mw_out = Responded \<lparr>status = 401, json = Message ''Unauthorized.''\<rparr>,
        mw_log = []\<rparr>
   \<and> hd (mw_log (verifyToken sample_env sample_db (sample_request (Some ''Token abc'') ())))
       = JwtVerify ''abc''"
proof -
  have "CHR '' '' \<notin> set ''Bearer''"
    by simp
  then have a: "\<exists>a. authorization (sample_request (Some ''Bearer'') ()) = Some a
                  \<and> CHR '' '' \<notin> set a"
    by (simp add: sample_request_def)
  have b: "authorization (sample_request (Some ''Token abc'') ())
             = Some (''Token'' @ CHR '' '' # ''abc'' @ [])
           \<and> CHR '' '' \<notin> set ''Token'' \<and> ''abc'' \<noteq> [] \<and> CHR '' '' \<notin> set ''abc''
           \<and> ([] = [] \<or> hd [] = CHR '' '')"
    by (simp add: sample_request_def)
  from a b
    verifyToken_no_token [of "sample_request (Some ''Bearer'') ()" sample_env sample_db]
    verifyToken_no_token [of "sample_request (Some ''Token abc'') ()" sample_env sample_db]
  show ?thesis
    by blast
qed


subsection \<open>Registration\<close>

lemmas joi_defs = and_then_def any_required_def string_base_def string_min_def string_max_def
  string_email_def string_pattern_def number_integer_def number_min_def number_max_def

lemma carol_valid:
  "registerSchema_validate sample_env (carol_body r)
     = (case r of None \<Rightarrow> Inr \<lparr>rv_name = ''Carol'', rv_email = ''carol@example.com'',
             rv_password = ''Secret3!'', rv_address = None, rv_role = ''NORMAL_USER''\<rparr>
        | Some x \<Rightarrow> if x \<in> set [''ADMIN'', ''NORMAL_USER'', ''STORE_OWNER'']
            then Inr \<lparr>rv_name = ''Carol'', rv_email = ''carol@example.com'',
             rv_password = ''Secret3!'', rv_address = None, rv_role = x\<rparr>
            else Inl (JoiError ''role'' ''any.only''))"
  by (simp add: registerSchema_validate_def registerSchema_name_def required_email_def
        registerSchema_password_def registerSchema_address_def registerSchema_role_def
        carol_body_def joi_defs password_pattern_def is_lower_def is_upper_def is_digit_def
        is_mark_def is_line_break_def sample_env_def split: option.splits)

lemma registerUser_run:
  assumes v: "registerSchema_validate E (body req) = Inr v"
    and fresh: "user_findUnique_email d (rv_email v) = None"
    and seq: "next_user_id d \<notin> user_id ` set (users d)"
  shows "registerUser E d req
     = (d\<lparr>users := users d @ [\<lparr>user_id = next_user_id d, user_name = rv_name v,
                          user_email = rv_email v,
                          user_password = bcrypt_hash E (rv_password v) 10,
                          user_role = rv_role v, user_address = rv_address v\<rparr>],
          next_user_id := next_user_id d + 1\<rparr>,
        \<lparr>status = 500, json = Message ''Server error creating user.''\<rparr>)"
proof -
  from fresh have "\<forall>x \<in> set (users d). user_email x \<noteq> rv_email v"
    by (simp add: user_findUnique_email_def find_None_iff)
  moreover from seq have "\<forall>x \<in> set (users d). user_id x \<noteq> next_user_id d"
    by (metis image_eqI)
  ultimately have "\<not> list_ex (\<lambda>x. user_id x = next_user_id d \<or> user_email x = rv_email v)
      (users d)"
    by (auto simp: list_ex_iff)
  with v fresh show ?thesis
    by (simp add: registerUser_def registerUser_user_def user_create_def Let_def)
qed

lemma sample_db_carol:
  "user_findUnique_email sample_db ''carol@example.com'' = None"
  "next_user_id sample_db \<notin> user_id ` set (users sample_db)"
  by (simp_all add: user_findUnique_email_def sample_db_def alice_def bob_def)

text \<open>
  Claim C6: a valid registration with a new e-mail address is answered 201 with a token
  for the new user. What \<open>registerUser\<close> does: it answers 500, since reading \<open>user\<close> in
  \<open>generateToken(user.id)\<close> throws after the row has been created; and where the
  sequence gives a free identifier, the row stays in the table.
\<close>

theorem registerUser_server_error:
  assumes v: "registerSchema_validate E (body req) = Inr v"
    and fresh: "user_findUnique_email d (rv_email v) = None"
  shows "snd (registerUser E d req)
           = \<lparr>status = 500, json = Message ''Server error creating user.''\<rparr>
     \<and> (next_user_id d \<notin> user_id ` set (users d) \<longrightarrow>
          users (fst (registerUser E d req))
            = users d @ [\<lparr>user_id = next_user_id d, user_name = rv_name v,
                          user_email = rv_email v,
                          user_password = bcrypt_hash E (rv_password v) 10,
                          user_role = rv_role v, user_address = rv_address v\<rparr>])"
proof (intro conjI impI)
  show "snd (registerUser E d req)
           = \<lparr>status = 500, json = Message ''Server error creating user.''\<rparr>"
    using v fresh
    by (simp add: registerUser_def registerUser_user_def Let_def split: sum.splits prod.splits)
next
  assume "next_user_id d \<notin> user_id ` set (users d)"
  from registerUser_run [OF v fresh this]
  show "users (fst (registerUser E d req))
            = users d @ [\<lparr>user_id = next_user_id d, user_name = rv_name v,
                          user_email = rv_email v,
                          user_password = bcrypt_hash E (rv_password v) 10,
                          user_role = rv_role v, user_address = rv_address v\<rparr>]"
    by simp
qed

text \<open>At the sample installation: Carol registers.\<close>

theorem registerUser_server_error_witness:
  "snd (registerUser sample_env sample_db (sample_request None (carol_body None)))
     = \<lparr>status = 500, json = Message ''Server error creating user.''\<rparr>
   \<and> users (fst (registerUser sample_env sample_db (sample_request None (carol_body None))))
     = [bob, alice,
        \<lparr>user_id = 43, user_name = ''Carol'', user_email = ''carol@example.com'',
         user_password = ''$2b$Secret3!'', user_role = ''NORMAL_USER'',
         user_address = None\<rparr>]"
proof -
  have v: "registerSchema_validate sample_env (body (sample_request None (carol_body None)))
      = Inr \<lparr>rv_name = ''Carol'', rv_email = ''carol@example.com'',
             rv_password = ''Secret3!'', rv_address = None, rv_role = ''NORMAL_USER''\<rparr>"
    by (simp add: carol_valid sample_request_def)
  from registerUser_server_error [OF v] sample_db_carol show ?thesis
    by (simp add: sample_db_def sample_env_def)
qed

text \<open>
  Claim C7, as stated: a user created by registration has the role \<open>NORMAL_USER\<close>. At
  the sample installation Carol registers with \<open>role: "ADMIN"\<close> in the body and is
  stored as an admin.
\<close>

theorem registerUser_admin_by_request:
  "users (fst (registerUser sample_env sample_db
                 (sample_request None (carol_body (Some ''ADMIN'')))))
     = [bob, alice,
        \<lparr>user_id = 43, user_name = ''Carol'', user_email = ''carol@example.com'',
         user_password = ''$2b$Secret3!'', user_role = ''ADMIN'', user_address = None\<rparr>]"
proof -
  have v: "registerSchema_validate sample_env
             (body (sample_request None (carol_body (Some ''ADMIN''))))
      = Inr \<lparr>rv_name = ''Carol'', rv_email = ''carol@example.com'',
             rv_password = ''Secret3!'', rv_address = None, rv_role = ''ADMIN''\<rparr>"
    by (simp add: carol_valid sample_request_def)
  from registerUser_run [OF v] sample_db_carol show ?thesis
    by (simp add: sample_db_def sample_env_def)
qed

text \<open>
  Claim C7, amended. A row that \<open>registerUser\<close> adds to the user table has the role of
  the request body when the body has one, which is then \<open>ADMIN\<close>, \<open>NORMAL_USER\<close> or
  \<open>STORE_OWNER\<close>, and \<open>NORMAL_USER\<close> when the body has none.
\<close>

theorem registerUser_role:
  assumes run: "registerUser E d req = (d', r)"
    and new: "users d' \<noteq> users d"
  shows "\<exists>u. users d' = users d @ [u]
     \<and> user_role u = (case rb_role (body req) of None \<Rightarrow> ''NORMAL_USER'' | Some x \<Rightarrow> x)
     \<and> user_role u \<in> {''ADMIN'', ''NORMAL_USER'', ''STORE_OWNER''}"
proof -
  from run new obtain v where
    v: "registerSchema_validate E (body req) = Inr v"
    and d': "users d' = users d @ [\<lparr>user_id = next_user_id d, user_name = rv_name v,
                user_email = rv_email v, user_password = bcrypt_hash E (rv_password v) 10,
                user_role = rv_role v, user_address = rv_address v\<rparr>]"
    by (auto simp: registerUser_def registerUser_user_def user_create_def Let_def
        split: sum.splits option.splits if_splits)
  from v have "registerSchema_role (rb_role (body req)) = Inr (rv_role v)"
    by (auto simp: registerSchema_validate_def and_then_def split: sum.splits)
  then have "rv_role v = (case rb_role (body req) of None \<Rightarrow> ''NORMAL_USER'' | Some x \<Rightarrow> x)"
    and "rv_role v \<in> {''ADMIN'', ''NORMAL_USER'', ''STORE_OWNER''}"
    by (auto simp: registerSchema_role_def split: option.splits if_splits)
  then have "user_role \<lparr>user_id = next_user_id d, user_name = rv_name v,
                user_email = rv_email v, user_password = bcrypt_hash E (rv_password v) 10,
                user_role = rv_role v, user_address = rv_address v\<rparr>
        = (case rb_role (body req) of None \<Rightarrow> ''NORMAL_USER'' | Some x \<Rightarrow> x)"
    and "user_role \<lparr>user_id = next_user_id d, user_name = rv_name v,
                user_email = rv_email v, user_password = bcrypt_hash E (rv_password v) 10,
                user_role = rv_role v, user_address = rv_address v\<rparr>
        \<in> {''ADMIN'', ''NORMAL_USER'', ''STORE_OWNER''}"
    by simp_all
  with d' show ?thesis by blast
qed

text \<open>At the sample installation: Carol registers without a role.\<close>

theorem registerUser_role_witness:
  "\<exists>u. users (fst (registerUser sample_env sample_db (sample_request None (carol_body None))))
          = users sample_db @ [u]
     \<and> user_role u = ''NORMAL_USER''"
proof -
  have v: "registerSchema_validate sample_env (body (sample_request None (carol_body None)))
      = Inr \<lparr>rv_name = ''Carol'', rv_email = ''carol@example.com'',
             rv_password = ''Secret3!'', rv_address = None, rv_role = ''NORMAL_USER''\<rparr>"
    by (simp add: carol_valid sample_request_def)
  from registerUser_run [OF v] sample_db_carol
  have new: "users (fst (registerUser sample_env sample_db
                          (sample_request None (carol_body None)))) \<noteq> users sample_db"
    by simp
  from registerUser_role [OF surjective_pairing new] show ?thesis
    by (auto simp: sample_request_def carol_body_def)
qed


subsection \<open>Login\<close>

text \<open>
  Claim C8. A login whose body passes the schema and whose e-mail address is that of a
  user is answered 200 with a token signed for the id and role of that user; the
  response does not depend on the password: any other password that the schema accepts
  (any string that is not empty) gives the same result.
\<close>

theorem loginUser_ignores_password:
  assumes v: "loginSchema_validate E (body req) = Inr (em, pw)"
    and u: "user_findUnique_email d em = Some u"
  shows "loginUser E d req
      = (d, \<lparr>status = 200,
             json = LoginOk ''Login successful.''
                      (jwt_sign E \<lparr>p_userId = None, p_id = Some (user_id u),
                                   p_role = Some (user_role u)\<rparr> (JWT_SECRET E) ''2d'')
                      (select_view u)\<rparr>)
     \<and> (\<forall>pw'. pw' \<noteq> [] \<longrightarrow>
          loginUser E d (req\<lparr>body := (body req)\<lparr>lb_password := Some pw'\<rparr>\<rparr>)
            = loginUser E d req)"
proof -
  have first: "loginUser E d req
      = (d, \<lparr>status = 200,
             json = LoginOk ''Login successful.''
                      (jwt_sign E \<lparr>p_userId = None, p_id = Some (user_id u),
                                   p_role = Some (user_role u)\<rparr> (JWT_SECRET E) ''2d'')
                      (select_view u)\<rparr>)"
    using v u by (simp add: loginUser_def)
  have em: "required_email E (lb_email (body req)) = Inr em"
    using v by (auto simp: loginSchema_validate_def and_then_def split: sum.splits)
  have "loginSchema_validate E ((body req)\<lparr>lb_password := Some pw'\<rparr>) = Inr (em, pw')"
    if "pw' \<noteq> []" for pw'
    using em that
    by (simp add: loginSchema_validate_def and_then_def any_required_def string_base_def)
  then have "loginUser E d (req\<lparr>body := (body req)\<lparr>lb_password := Some pw'\<rparr>\<rparr>)
      = loginUser E d req" if "pw' \<noteq> []" for pw'
    using that u first by (simp add: loginUser_def)
  with first show ?thesis by blast
qed


lemma alice_login_valid:
  "loginSchema_validate sample_env
     \<lparr>lb_email = Some ''alice@example.com'', lb_password = Some ''wrong''\<rparr>
   = Inr (''alice@example.com'', ''wrong'')"
  by (simp add: loginSchema_validate_def required_email_def and_then_def any_required_def
        string_base_def string_email_def sample_env_def)

text \<open>At the sample installation: Alice's address with a password that is not hers.\<close>

theorem loginUser_ignores_password_witness:
  "loginUser sample_env sample_db
     (sample_request None \<lparr>lb_email = Some ''alice@example.com'', lb_password = Some ''wrong''\<rparr>)
   = (sample_db,
      \<lparr>status = 200, json = LoginOk ''Login successful.'' ''tok.login42'' (select_view alice)\<rparr>)
   \<and> loginUser sample_env sample_db
       (sample_request None \<lparr>lb_email = Some ''alice@example.com'', lb_password = Some ''x''\<rparr>)
     = loginUser sample_env sample_db
         (sample_request None \<lparr>lb_email = Some ''alice@example.com'',
                                lb_password = Some ''wrong''\<rparr>)"
proof -
  have v: "loginSchema_validate sample_env
             (body (sample_request None \<lparr>lb_email = Some ''alice@example.com'',
                                         lb_password = Some ''wrong''\<rparr>))
           = Inr (''alice@example.com'', ''wrong'')"
    by (simp add: alice_login_valid sample_request_def)
  have u: "user_findUnique_email sample_db ''alice@example.com'' = Some alice"
    by (simp add: user_findUnique_email_def sample_db_def alice_def bob_def)
  have x: "''x'' \<noteq> []"
    by simp
  from loginUser_ignores_password [OF v u] x show ?thesis
    by (simp add: sample_request_def sample_env_def sample_sign_def alice_def)
qed

text \<open>
  The token of \<open>generateToken\<close> carries the key that \<open>verifyToken\<close> reads: where the
  client is in scope, it verifies to the context of the user it was issued for.
\<close>

lemma generateToken_verifies:
  assumes sig: "jwt_verify E (generateToken E k) (JWT_SECRET E)
                  = Some \<lparr>p_userId = Some k, p_id = None, p_role = None\<rparr>"
    and tok: "generateToken E k \<noteq> []" "CHR '' '' \<notin> set (generateToken E k)"
    and hdr: "authorization req = Some (''Bearer '' @ generateToken E k)"
    and scope: "global_prisma E"
    and live: "find (\<lambda>u. user_id u = k) (users d) = Some u"
  shows "mw_out (verifyToken E d req) = Next
     \<and> user (mw_req (verifyToken E d req)) = Some (Selected (select_ctx u))
     \<and> ctx_id (select_ctx u) = k"
proof -
  have t: "header_token (authorization req) = Some (generateToken E k)"
    using header_token_bearer [OF tok(2)] hdr by simp
  from live have "user_id u = k"
    by (auto simp: find_Some_iff)
  with t tok(1) sig scope live show ?thesis
    by (simp add: verifyToken_def user_findUnique_id_def select_ctx_def)
qed

text \<open>
  Claim C2: a token issued by registration or by login verifies to a context with the
  id it was issued for, while the user exists. What the code does with the token of
  \<open>loginUser\<close>: its payload is \<open>{ id, role }\<close>, \<open>verifyToken\<close> reads \<open>userId\<close>, and
  the lookup with an \<open>undefined\<close> id throws; the request is answered 401 with the user
  in the table.
\<close>

theorem login_token_rejected:
  assumes v: "loginSchema_validate E (body lreq) = Inr (em, pw)"
    and u: "user_findUnique_email d em = Some u"
    and token: "token = jwt_sign E \<lparr>p_userId = None, p_id = Some (user_id u),
                                    p_role = Some (user_role u)\<rparr> (JWT_SECRET E) ''2d''"
    and sig: "jwt_verify E token (JWT_SECRET E)
                = Some \<lparr>p_userId = None, p_id = Some (user_id u), p_role = Some (user_role u)\<rparr>"
    and tok: "token \<noteq> []" "CHR '' '' \<notin> set token"
    and hdr: "authorization req = Some (''Bearer '' @ token)"
  shows "snd (loginUser E d lreq)
           = \<lparr>status = 200, json = LoginOk ''Login successful.'' token (select_view u)\<rparr>
     \<and> mw_out (verifyToken E d req)
           = Responded \<lparr>status = 401, json = Message ''Invalid token.''\<rparr>"
proof -
  have t: "header_token (authorization req) = Some token"
    using header_token_bearer [OF tok(2)] hdr by simp
  have "mw_out (verifyToken E d req)
           = Responded \<lparr>status = 401, json = Message ''Invalid token.''\<rparr>"
    using t tok(1) sig
    by (simp add: verifyToken_def unauthorized_def user_findUnique_id_def Let_def)
  moreover have "snd (loginUser E d lreq)
           = \<lparr>status = 200, json = LoginOk ''Login successful.'' token (select_view u)\<rparr>"
    using v u token by (simp add: loginUser_def)
  ultimately show ?thesis by simp
qed

text \<open>At the sample installation: Alice logs in and presents her token.\<close>

theorem login_token_rejected_witness:
  "snd (loginUser sample_env sample_db
          (sample_request None \<lparr>lb_email = Some ''alice@example.com'',
                                 lb_password = Some ''wrong''\<rparr>))
     = \<lparr>status = 200,
        json = LoginOk ''Login successful.'' ''tok.login42'' (select_view alice)\<rparr>
   \<and> mw_out (verifyToken sample_env sample_db (sample_request (Some ''Bearer tok.login42'') ()))
     = Responded \<lparr>status = 401, json = Message ''Invalid token.''\<rparr>
   \<and> find (\<lambda>x. user_id x = 42) (users sample_db) = Some alice"
proof -
  have v: "loginSchema_validate sample_env
             (body (sample_request None \<lparr>lb_email = Some ''alice@example.com'',
                                         lb_password = Some ''wrong''\<rparr>))
           = Inr (''alice@example.com'', ''wrong'')"
    by (simp add: alice_login_valid sample_request_def)
  have u: "user_findUnique_email sample_db ''alice@example.com'' = Some alice"
    by (simp add: user_findUnique_email_def sample_db_def alice_def bob_def)
  have token: "''tok.login42''
      = jwt_sign sample_env \<lparr>p_userId = None, p_id = Some (user_id alice),
                              p_role = Some (user_role alice)\<rparr> (JWT_SECRET sample_env) ''2d''"
    by (simp add: sample_env_def sample_sign_def)
  have sig: "jwt_verify sample_env ''tok.login42'' (JWT_SECRET sample_env)
      = Some \<lparr>p_userId = None, p_id = Some (user_id alice), p_role = Some (user_role alice)\<rparr>"
    by (simp add: sample_env_def sample_verify_def alice_def)
  have hdr: "authorization (sample_request (Some ''Bearer tok.login42'') ())
      = Some (''Bearer '' @ ''tok.login42'')"
    by (simp add: sample_request_def)
  have "find (\<lambda>x. user_id x = 42) (users sample_db) = Some alice"
    by (simp add: sample_db_def alice_def bob_def)
  with login_token_rejected [OF v u token sig _ _ hdr] show ?thesis
    by simp
qed

subsection \<open>Deleting a user\<close>

lemma find_user_id_iff:
  "(\<exists>u. find (\<lambda>u. user_id u = k) us = Some u) \<longleftrightarrow> k \<in> user_id ` set us"
  by (induction us) auto

lemma user_delete_removes:
  "user_delete E d i = Inr d' \<Longrightarrow>
   \<exists>k. i = Some k \<and> k \<in> user_id ` set (users d) \<and> k \<notin> user_id ` set (users d')"
  by (auto simp: user_delete_def Let_def list_ex_iff
      split: option.splits if_splits ref_action.splits)

lemma deleteUserByAdmin_changes:
  assumes "fst (deleteUserByAdmin E d req) \<noteq> d
        \<or> snd (deleteUserByAdmin E d req)
            = \<lparr>status = 200, json = Message ''User deleted successfully''\<rparr>"
  shows "\<exists>u d'. user_findUnique_id d (parseInt E (params_id req)) \<noteq> Inr None
     \<and> user req = Some u \<and> requser_id u \<noteq> parseInt E (params_id req)
     \<and> user_delete E d (parseInt E (params_id req)) = Inr d'
     \<and> deleteUserByAdmin E d req
         = (d', \<lparr>status = 200, json = Message ''User deleted successfully''\<rparr>)"
  using assms
  by (auto simp: deleteUserByAdmin_def internal_error_def Let_def
      split: sum.splits option.splits if_splits)

text \<open>
  Claim C10. For a caller whose context is that of a user of the table (an admin that
  \<open>verifyToken\<close> has let through), a request to delete the caller's own id is answered
  400 and leaves the database as it is. Whenever \<open>deleteUserByAdmin\<close> changes the
  database or answers that the user is deleted, the target is a user of the table and
  is not the caller, and it is no longer in the table afterwards.
\<close>

theorem deleteUserByAdmin_guard:
  "(\<forall>c. user req = Some (Selected c) \<and> ctx_id c \<in> user_id ` set (users d)
        \<and> parseInt E (params_id req) = Some (ctx_id c)
      \<longrightarrow> deleteUserByAdmin E d req
            = (d, \<lparr>status = 400, json = Message ''You cannot delete your own account''\<rparr>))
   \<and> (fst (deleteUserByAdmin E d req) \<noteq> d
        \<or> snd (deleteUserByAdmin E d req)
            = \<lparr>status = 200, json = Message ''User deleted successfully''\<rparr>
      \<longrightarrow> (\<exists>k u. parseInt E (params_id req) = Some k \<and> k \<in> user_id ` set (users d)
              \<and> user req = Some u \<and> requser_id u \<noteq> Some k
              \<and> k \<notin> user_id ` set (users (fst (deleteUserByAdmin E d req)))))"
proof (intro conjI allI impI)
  fix c
  assume h: "user req = Some (Selected c) \<and> ctx_id c \<in> user_id ` set (users d)
        \<and> parseInt E (params_id req) = Some (ctx_id c)"
  then obtain u where "find (\<lambda>u. user_id u = ctx_id c) (users d) = Some u"
    using find_user_id_iff [of "ctx_id c" "users d"] by blast
  with h show "deleteUserByAdmin E d req
            = (d, \<lparr>status = 400, json = Message ''You cannot delete your own account''\<rparr>)"
    by (simp add: deleteUserByAdmin_def user_findUnique_id_def)
next
  assume "fst (deleteUserByAdmin E d req) \<noteq> d
        \<or> snd (deleteUserByAdmin E d req)
            = \<lparr>status = 200, json = Message ''User deleted successfully''\<rparr>"
  from deleteUserByAdmin_changes [OF this] obtain u d' where
    u: "user req = Some u" "requser_id u \<noteq> parseInt E (params_id req)"
    and del: "user_delete E d (parseInt E (params_id req)) = Inr d'"
    and run: "deleteUserByAdmin E d req
         = (d', \<lparr>status = 200, json = Message ''User deleted successfully''\<rparr>)"
    by blast
  from user_delete_removes [OF del] obtain k where
    "parseInt E (params_id req) = Some k" "k \<in> user_id ` set (users d)"
    "k \<notin> user_id ` set (users d')"
    by blast
  with u run show "\<exists>k u. parseInt E (params_id req) = Some k \<and> k \<in> user_id ` set (users d)
              \<and> user req = Some u \<and> requser_id u \<noteq> Some k
              \<and> k \<notin> user_id ` set (users (fst (deleteUserByAdmin E d req)))"
    by auto
qed

text \<open>
  At the sample installation: Bob, an admin, asks to delete himself; and, where users
  are deleted with what refers to them, asks to delete Alice.
\<close>

theorem deleteUserByAdmin_guard_witness:
  "deleteUserByAdmin sample_env sample_db
     ((sample_request None ())\<lparr>user := Some (Selected (select_ctx bob)), params_id := ''7''\<rparr>)
     = (sample_db, \<lparr>status = 400, json = Message ''You cannot delete your own account''\<rparr>)
   \<and> (\<exists>k u. parseInt (sample_env\<lparr>user_onDelete := Cascade\<rparr>) ''42'' = Some k
         \<and> k \<in> user_id ` set (users sample_db)
         \<and> Some (Selected (select_ctx bob)) = Some u \<and> requser_id u \<noteq> Some k
         \<and> k \<notin> user_id ` set (users (fst (deleteUserByAdmin
                (sample_env\<lparr>user_onDelete := Cascade\<rparr>) sample_db
                ((sample_request None ())\<lparr>user := Some (Selected (select_ctx bob)),
                                            params_id := ''42''\<rparr>)))))"
proof -
  have a: "user ((sample_request None ())\<lparr>user := Some (Selected (select_ctx bob)),
                                          params_id := ''7''\<rparr>)
             = Some (Selected (select_ctx bob))
        \<and> ctx_id (select_ctx bob) \<in> user_id ` set (users sample_db)
        \<and> parseInt sample_env
             (params_id ((sample_request None ())\<lparr>user := Some (Selected (select_ctx bob)),
                                                   params_id := ''7''\<rparr>))
            = Some (ctx_id (select_ctx bob))"
    by (simp add: sample_request_def select_ctx_def sample_db_def sample_env_def
          alice_def bob_def)
  have b: "snd (deleteUserByAdmin (sample_env\<lparr>user_onDelete := Cascade\<rparr>) sample_db
                ((sample_request None ())\<lparr>user := Some (Selected (select_ctx bob)),
                                            params_id := ''42''\<rparr>))
      = \<lparr>status = 200, json = Message ''User deleted successfully''\<rparr>"
    by (simp add: deleteUserByAdmin_def user_findUnique_id_def user_delete_def
          sample_request_def select_ctx_def sample_db_def sample_env_def alice_def bob_def)
  from a b
    deleteUserByAdmin_guard [of
      "(sample_request None ())\<lparr>user := Some (Selected (select_ctx bob)), params_id := ''7''\<rparr>"
      sample_db sample_env]
    deleteUserByAdmin_guard [of
      "(sample_request None ())\<lparr>user := Some (Selected (select_ctx bob)),
                                 params_id := ''42''\<rparr>"
      sample_db "sample_env\<lparr>user_onDelete := Cascade\<rparr>"]
  show ?thesis
    by (simp add: sample_request_def)
qed


subsection \<open>Ratings\<close>

lemma rating_update_pairs:
  assumes "rating_update d k v c = Inr (d', r)"
  shows "map (\<lambda>r. (rating_userId r, rating_storeId r)) (ratings d')
       = map (\<lambda>r. (rating_userId r, rating_storeId r)) (ratings d)"
    and "ratings d'
       = map (\<lambda>x. if rating_id x = k
                then x\<lparr>rating_rating := v,
                       rating_comment := (case c of None \<Rightarrow> rating_comment x
                                          | Some t \<Rightarrow> Some t)\<rparr>
                else x) (ratings d)"
  using assms
  by (auto simp: rating_update_def Let_def split: option.splits)

lemma rating_create_pairs:
  assumes "rating_create d uid sid v c = Inr (d', r)"
  shows "\<exists>k. uid = Some k
     \<and> (k, sid) \<notin> set (map (\<lambda>r. (rating_userId r, rating_storeId r)) (ratings d))
     \<and> ratings d' = ratings d @ [\<lparr>rating_id = next_rating_id d, rating_userId = k,
                                   rating_storeId = sid, rating_rating = v,
                                   rating_comment = c\<rparr>]"
  using assms
  by (auto simp: rating_create_def Let_def list_ex_iff split: option.splits if_splits)

lemma createRating_body_steps:
  "fst (createRating_body E d req) = d
   \<or> (\<exists>k v c r. rating_update d k v c = Inr (fst (createRating_body E d req), r))
   \<or> (\<exists>uid sid v c r. rating_create d uid sid v c = Inr (fst (createRating_body E d req), r))"
  by (auto simp: createRating_body_def internal_error_def Let_def
      split: sum.splits option.splits prod.splits)

lemma createRating_body_invariant:
  assumes "one_rating_per_pair d"
  shows "one_rating_per_pair (fst (createRating_body E d req))"
proof -
  consider "fst (createRating_body E d req) = d"
    | k v c r where "rating_update d k v c = Inr (fst (createRating_body E d req), r)"
    | uid sid v c r where "rating_create d uid sid v c = Inr (fst (createRating_body E d req), r)"
    using createRating_body_steps [of E d req] by blast
  then show ?thesis
  proof cases
    case 1
    with assms show ?thesis by simp
  next
    case 2
    from rating_update_pairs(1) [OF this] assms show ?thesis
      by (simp add: one_rating_per_pair_def)
  next
    case 3
    from rating_create_pairs [OF this] assms show ?thesis
      by (auto simp: one_rating_per_pair_def)
  qed
qed

lemma createRating_body_existing:
  assumes v: "createRatingSchema_validate (body req) = Inr (sid, v)"
    and st: "store_findUnique_id d sid = Some st"
    and u: "user req = Some u" "requser_id u = Some k"
    and own: "store_ownerId st \<noteq> k"
    and ex: "find (\<lambda>r. rating_userId r = k \<and> rating_storeId r = sid) (ratings d) = Some r0"
  shows "\<exists>r. createRating_body E d req
     = (d\<lparr>ratings := map (\<lambda>x. if rating_id x = rating_id r0 then x\<lparr>rating_rating := v\<rparr> else x)
                         (ratings d)\<rparr>,
        \<lparr>status = 200, json = RatingSaved ''Rating updated successfully'' r\<rparr>)"
proof -
  from ex have "r0 \<in> set (ratings d)"
    by (auto simp: find_Some_iff)
  then obtain r1 where r1: "find (\<lambda>r. rating_id r = rating_id r0) (ratings d) = Some r1"
    by (cases "find (\<lambda>r. rating_id r = rating_id r0) (ratings d)") (auto simp: find_None_iff)
  have upd: "rating_update d (rating_id r0) v None
      = Inr (d\<lparr>ratings := map (\<lambda>x. if rating_id x = rating_id r0
                                   then x\<lparr>rating_rating := v\<rparr> else x) (ratings d)\<rparr>,
             r1\<lparr>rating_rating := v\<rparr>)"
    using r1 by (simp add: rating_update_def Let_def)
  have look: "rating_findUnique_userId_storeId d (requser_id u) sid = Inr (Some r0)"
    using u(2) ex by (simp add: rating_findUnique_userId_storeId_def)
  show ?thesis
    using v st u own look upd by (simp add: createRating_body_def)
qed

lemma createRating_body_new:
  assumes v: "createRatingSchema_validate (body req) = Inr (sid, v)"
    and st: "store_findUnique_id d sid = Some st"
    and u: "user req = Some u" "requser_id u = Some k"
    and own: "store_ownerId st \<noteq> k"
    and ex: "find (\<lambda>r. rating_userId r = k \<and> rating_storeId r = sid) (ratings d) = None"
    and member: "k \<in> user_id ` set (users d)"
    and seq: "next_rating_id d \<notin> rating_id ` set (ratings d)"
  shows "createRating_body E d req
     = (d\<lparr>ratings := ratings d @ [\<lparr>rating_id = next_rating_id d, rating_userId = k,
                                    rating_storeId = sid, rating_rating = v,
                                    rating_comment = None\<rparr>],
          next_rating_id := next_rating_id d + 1\<rparr>,
        \<lparr>status = 201,
         json = RatingSaved ''Rating created successfully''
                  \<lparr>rating_id = next_rating_id d, rating_userId = k, rating_storeId = sid,
                   rating_rating = v, rating_comment = None\<rparr>\<rparr>)"
proof -
  from st have "list_ex (\<lambda>s. store_id s = sid) (stores d)"
    by (auto simp: store_findUnique_id_def find_Some_iff list_ex_iff)
  moreover from member have "list_ex (\<lambda>x. user_id x = k) (users d)"
    by (auto simp: list_ex_iff)
  moreover from seq have "\<forall>x \<in> set (ratings d). rating_id x \<noteq> next_rating_id d"
    by (metis image_eqI)
  with ex have "\<not> list_ex (\<lambda>x. rating_id x = next_rating_id d
      \<or> (rating_userId x = k \<and> rating_storeId x = sid)) (ratings d)"
    by (auto simp: list_ex_iff find_None_iff)
  ultimately have new: "rating_create d (Some k) sid v None
      = Inr (d\<lparr>ratings := ratings d @ [\<lparr>rating_id = next_rating_id d, rating_userId = k,
                                    rating_storeId = sid, rating_rating = v,
                                    rating_comment = None\<rparr>],
          next_rating_id := next_rating_id d + 1\<rparr>,
          \<lparr>rating_id = next_rating_id d, rating_userId = k,
                                    rating_storeId = sid, rating_rating = v,
                                    rating_comment = None\<rparr>)"
    by (simp add: rating_create_def Let_def)
  have look: "rating_findUnique_userId_storeId d (requser_id u) sid = Inr None"
    using u(2) ex by (simp add: rating_findUnique_userId_storeId_def)
  show ?thesis
    using v st u own look new by (simp add: createRating_body_def)
qed


text \<open>
  The function written for \<open>createRating\<close> keeps the rating table free of two rows for
  the same user and store. For a request that passes the schema, for a store that
  exists and is not the requester's own: when the requester has a rating of the store,
  it answers 200 and changes the value in the row of that rating, adding no row; when
  the requester, a user of the table, has none and the sequence gives a free
  identifier, it answers 201 and adds one row, the new rating.
\<close>

lemma createRating_body_one_per_pair:
  assumes inv: "one_rating_per_pair d"
  shows "one_rating_per_pair (fst (createRating_body E d req))
     \<and> (\<forall>sid v st u k.
          createRatingSchema_validate (body req) = Inr (sid, v)
          \<and> store_findUnique_id d sid = Some st
          \<and> user req = Some u \<and> requser_id u = Some k \<and> store_ownerId st \<noteq> k
          \<longrightarrow>
          (\<forall>r0. find (\<lambda>r. rating_userId r = k \<and> rating_storeId r = sid) (ratings d) = Some r0
             \<longrightarrow> status (snd (createRating_body E d req)) = 200
               \<and> ratings (fst (createRating_body E d req))
                   = map (\<lambda>x. if rating_id x = rating_id r0 then x\<lparr>rating_rating := v\<rparr> else x)
                       (ratings d)
               \<and> length (ratings (fst (createRating_body E d req))) = length (ratings d))
          \<and> (find (\<lambda>r. rating_userId r = k \<and> rating_storeId r = sid) (ratings d) = None
               \<and> k \<in> user_id ` set (users d)
               \<and> next_rating_id d \<notin> rating_id ` set (ratings d)
             \<longrightarrow> status (snd (createRating_body E d req)) = 201
               \<and> ratings (fst (createRating_body E d req))
                   = ratings d @ [\<lparr>rating_id = next_rating_id d, rating_userId = k,
                                   rating_storeId = sid, rating_rating = v,
                                   rating_comment = None\<rparr>]))"
proof (intro conjI allI impI)
  show "one_rating_per_pair (fst (createRating_body E d req))"
    using inv by (rule createRating_body_invariant)
next
  fix sid v st u k r0
  assume h: "createRatingSchema_validate (body req) = Inr (sid, v)
          \<and> store_findUnique_id d sid = Some st
          \<and> user req = Some u \<and> requser_id u = Some k \<and> store_ownerId st \<noteq> k"
    and ex: "find (\<lambda>r. rating_userId r = k \<and> rating_storeId r = sid) (ratings d) = Some r0"
  from h ex obtain r where run: "createRating_body E d req
     = (d\<lparr>ratings := map (\<lambda>x. if rating_id x = rating_id r0 then x\<lparr>rating_rating := v\<rparr> else x)
                         (ratings d)\<rparr>,
        \<lparr>status = 200, json = RatingSaved ''Rating updated successfully'' r\<rparr>)"
    using createRating_body_existing [of req sid v d st u k r0 E] by blast
  from run show "status (snd (createRating_body E d req)) = 200" by simp
  from run show "ratings (fst (createRating_body E d req))
                   = map (\<lambda>x. if rating_id x = rating_id r0 then x\<lparr>rating_rating := v\<rparr> else x)
                       (ratings d)" by simp
  from run show "length (ratings (fst (createRating_body E d req))) = length (ratings d)" by simp
next
  fix sid v st u k
  assume h: "createRatingSchema_validate (body req) = Inr (sid, v)
          \<and> store_findUnique_id d sid = Some st
          \<and> user req = Some u \<and> requser_id u = Some k \<and> store_ownerId st \<noteq> k"
    and new: "find (\<lambda>r. rating_userId r = k \<and> rating_storeId r = sid) (ratings d) = None
               \<and> k \<in> user_id ` set (users d)
               \<and> next_rating_id d \<notin> rating_id ` set (ratings d)"
  from h new have run: "createRating_body E d req
     = (d\<lparr>ratings := ratings d @ [\<lparr>rating_id = next_rating_id d, rating_userId = k,
                                    rating_storeId = sid, rating_rating = v,
                                    rating_comment = None\<rparr>],
          next_rating_id := next_rating_id d + 1\<rparr>,
        \<lparr>status = 201,
         json = RatingSaved ''Rating created successfully''
                  \<lparr>rating_id = next_rating_id d, rating_userId = k, rating_storeId = sid,
                   rating_rating = v, rating_comment = None\<rparr>\<rparr>)"
    using createRating_body_new [of req sid v d st u k E] by blast
  from run show "status (snd (createRating_body E d req)) = 201" by simp
  from run show "ratings (fst (createRating_body E d req))
                   = ratings d @ [\<lparr>rating_id = next_rating_id d, rating_userId = k,
                                   rating_storeId = sid, rating_rating = v,
                                   rating_comment = None\<rparr>]" by simp
qed


text \<open>
  Claim C9: \<open>createRating\<close> answers 200 for a rating in place and 201 for a new one,
  with one row for each user and store. What the program does: \<open>updateRating\<close>, line
  179 of the same module, is written \<open>async (res, res) =>\<close>; the module does not parse,
  \<open>createRating\<close> is never defined, and no request is answered by it, whatever the
  request and the tables.
\<close>

theorem createRating_not_loaded:
  "createRating E d req
     = Inl (SyntaxError ''Duplicate parameter name not allowed in this context'')"
  by (simp add: createRating_def early_error_def rating_controller_functions_def)

text \<open>
  At the sample installation: Alice rates the store she has rated before, and a store
  she has not.
\<close>

theorem createRating_not_loaded_witness:
  "createRating sample_env sample_db (alice_rates 1 5)
     = Inl (SyntaxError ''Duplicate parameter name not allowed in this context'')
   \<and> createRating sample_env sample_db (alice_rates 2 4)
     = Inl (SyntaxError ''Duplicate parameter name not allowed in this context'')"
  using createRating_not_loaded [of sample_env sample_db "alice_rates 1 5"]
        createRating_not_loaded [of sample_env sample_db "alice_rates 2 4"]
  by simp

end
